theory Spec2Isabelle
  imports Main "HOL-Library.AList"
begin

section \<open>Errors\<close>

text \<open>
  The exceptions that the modelled functions can raise.  \<open>ProviderRequestError\<close>
  stands for whatever a remote collaborator call raises; it is passed on unchanged.
\<close>

datatype error =
    StopIteration
  | UnboundLocalError
  | IndexError
  | AttributeError
  | ProviderRequestError string

section \<open>OpenStack resources: canonical states and refresh\<close>

subsection \<open>Canonical states\<close>

text \<open>
  Modelled from the spec: the state enumerations of \<open>cloud/interfaces/resources.py\<close>,
  which the provider modules import; their members are those the data model lists.
\<close>

datatype InstanceState =
    InstanceState_UNKNOWN | InstanceState_PENDING | InstanceState_CONFIGURING
  | InstanceState_RUNNING | InstanceState_REBOOTING | InstanceState_TERMINATED
  | InstanceState_STOPPED | InstanceState_ERROR

datatype VolumeState =
    VolumeState_UNKNOWN | VolumeState_CREATING | VolumeState_CONFIGURING
  | VolumeState_AVAILABLE | VolumeState_IN_USE | VolumeState_ERROR

datatype SnapshotState =
    SnapshotState_UNKNOWN | SnapshotState_PENDING | SnapshotState_CONFIGURING
  | SnapshotState_AVAILABLE | SnapshotState_ERROR

datatype MachineImageState =
    MachineImageState_UNKNOWN | MachineImageState_PENDING
  | MachineImageState_AVAILABLE | MachineImageState_ERROR

subsection \<open>The cached payload\<close>

text \<open>
  The object that the OpenStack client library hands out for a server, a volume, a
  snapshot or an image: an identifier, a name, the raw status string and the remaining
  attributes.  A wrapper class keeps one such object in its private field.
\<close>

record os_object =
  os_id :: string
  os_name :: string
  status :: string
  os_attrs :: "(string \<times> string) list"

record OpenStackMachineImage =
  os_image :: os_object

record OpenStackInstance =
  os_instance :: os_object

record OpenStackVolume =
  volume :: os_object

record OpenStackSnapshot =
  snapshot :: os_object

subsection \<open>Mapping tables\<close>

text \<open>Python's \<open>d.get(k, default)\<close> on a dictionary given by its items.\<close>

definition dict_get :: "('k \<times> 'v) list \<Rightarrow> 'k \<Rightarrow> 'v \<Rightarrow> 'v" where
  "dict_get d k dflt = (case map_of d k of None \<Rightarrow> dflt | Some v \<Rightarrow> v)"

definition IMAGE_STATE_MAP :: "(string \<times> MachineImageState) list" where
  "IMAGE_STATE_MAP =
    [(''QUEUED'', MachineImageState_PENDING),
     (''SAVING'', MachineImageState_PENDING),
     (''ACTIVE'', MachineImageState_AVAILABLE),
     (''KILLED'', MachineImageState_ERROR),
     (''DELETED'', MachineImageState_ERROR),
     (''PENDING_DELETE'', MachineImageState_ERROR)]"

definition INSTANCE_STATE_MAP :: "(string \<times> InstanceState) list" where
  "INSTANCE_STATE_MAP =
    [(''ACTIVE'', InstanceState_RUNNING),
     (''BUILD'', InstanceState_PENDING),
     (''DELETED'', InstanceState_TERMINATED),
     (''ERROR'', InstanceState_ERROR),
     (''HARD_REBOOT'', InstanceState_REBOOTING),
     (''PASSWORD'', InstanceState_PENDING),
     (''PAUSED'', InstanceState_STOPPED),
     (''REBOOT'', InstanceState_REBOOTING),
     (''REBUILD'', InstanceState_CONFIGURING),
     (''RESCUE'', InstanceState_CONFIGURING),
     (''RESIZE'', InstanceState_CONFIGURING),
     (''REVERT_RESIZE'', InstanceState_CONFIGURING),
     (''SOFT_DELETED'', InstanceState_STOPPED),
     (''STOPPED'', InstanceState_STOPPED),
     (''SUSPENDED'', InstanceState_STOPPED),
     (''SHUTOFF'', InstanceState_STOPPED),
     (''UNKNOWN'', InstanceState_UNKNOWN),
     (''VERIFY_RESIZE'', InstanceState_CONFIGURING)]"

definition VOLUME_STATE_MAP :: "(string \<times> VolumeState) list" where
  "VOLUME_STATE_MAP =
    [(''creating'', VolumeState_CREATING),
     (''available'', VolumeState_AVAILABLE),
     (''attaching'', VolumeState_CONFIGURING),
     (''in-use'', VolumeState_IN_USE),
     (''deleting'', VolumeState_CONFIGURING),
     (''error'', VolumeState_ERROR),
     (''error_deleting'', VolumeState_ERROR),
     (''backing-up'', VolumeState_CONFIGURING),
     (''restoring-backup'', VolumeState_CONFIGURING),
     (''error_restoring'', VolumeState_ERROR),
     (''error_extending'', VolumeState_ERROR)]"

definition SNAPSHOT_STATE_MAP :: "(string \<times> SnapshotState) list" where
  "SNAPSHOT_STATE_MAP =
    [(''creating'', SnapshotState_PENDING),
     (''available'', SnapshotState_AVAILABLE),
     (''deleting'', SnapshotState_CONFIGURING),
     (''error'', SnapshotState_ERROR),
     (''error_deleting'', SnapshotState_ERROR)]"

subsection \<open>The \<open>state\<close> properties\<close>

definition OpenStackMachineImage_state :: "OpenStackMachineImage \<Rightarrow> MachineImageState" where
  "OpenStackMachineImage_state self =
     dict_get IMAGE_STATE_MAP (status (os_image self)) MachineImageState_UNKNOWN"

definition OpenStackInstance_state :: "OpenStackInstance \<Rightarrow> InstanceState" where
  "OpenStackInstance_state self =
     dict_get INSTANCE_STATE_MAP (status (os_instance self)) InstanceState_UNKNOWN"

definition OpenStackVolume_state :: "OpenStackVolume \<Rightarrow> VolumeState" where
  "OpenStackVolume_state self =
     dict_get VOLUME_STATE_MAP (status (volume self)) VolumeState_UNKNOWN"

definition OpenStackSnapshot_state :: "OpenStackSnapshot \<Rightarrow> SnapshotState" where
  "OpenStackSnapshot_state self =
     dict_get SNAPSHOT_STATE_MAP (status (snapshot self)) SnapshotState_UNKNOWN"

subsection \<open>The \<open>refresh\<close> methods\<close>

text \<open>
  Each \<open>refresh\<close> asks the provider's service for the object with the resource's
  identifier.  The service's \<open>get\<close> is a collaborator: it answers with a wrapped object,
  with \<open>None\<close> when the identifier is no longer known, or it raises.  A wrapper object is
  truthy, so \<open>if image:\<close> tests the answer against \<open>None\<close>.
\<close>

definition OpenStackMachineImage_refresh ::
  "(string \<Rightarrow> error + OpenStackMachineImage option) \<Rightarrow> OpenStackMachineImage
     \<Rightarrow> error + OpenStackMachineImage" where
  "OpenStackMachineImage_refresh images_get self =
     (case images_get (os_id (os_image self)) of
        Inl e \<Rightarrow> Inl e
      | Inr (Some img) \<Rightarrow> Inr (self\<lparr>os_image := os_image img\<rparr>)
      | Inr None \<Rightarrow> Inr (self\<lparr>os_image := (os_image self)\<lparr>status := ''unknown''\<rparr>\<rparr>))"

definition OpenStackInstance_refresh ::
  "(string \<Rightarrow> error + OpenStackInstance option) \<Rightarrow> OpenStackInstance
     \<Rightarrow> error + OpenStackInstance" where
  "OpenStackInstance_refresh instances_get self =
     (case instances_get (os_id (os_instance self)) of
        Inl e \<Rightarrow> Inl e
      | Inr (Some inst) \<Rightarrow> Inr (self\<lparr>os_instance := os_instance inst\<rparr>)
      | Inr None \<Rightarrow> Inr (self\<lparr>os_instance := (os_instance self)\<lparr>status := ''unknown''\<rparr>\<rparr>))"

definition OpenStackVolume_refresh ::
  "(string \<Rightarrow> error + OpenStackVolume option) \<Rightarrow> OpenStackVolume
     \<Rightarrow> error + OpenStackVolume" where
  "OpenStackVolume_refresh volumes_get self =
     (case volumes_get (os_id (volume self)) of
        Inl e \<Rightarrow> Inl e
      | Inr (Some vol) \<Rightarrow> Inr (self\<lparr>volume := volume vol\<rparr>)
      | Inr None \<Rightarrow> Inr (self\<lparr>volume := (volume self)\<lparr>status := ''unknown''\<rparr>\<rparr>))"

definition OpenStackSnapshot_refresh ::
  "(string \<Rightarrow> error + OpenStackSnapshot option) \<Rightarrow> OpenStackSnapshot
     \<Rightarrow> error + OpenStackSnapshot" where
  "OpenStackSnapshot_refresh snapshots_get self =
     (case snapshots_get (os_id (snapshot self)) of
        Inl e \<Rightarrow> Inl e
      | Inr (Some snap) \<Rightarrow> Inr (self\<lparr>snapshot := snapshot snap\<rparr>)
      | Inr None \<Rightarrow> Inr (self\<lparr>snapshot := (snapshot self)\<lparr>status := ''unknown''\<rparr>\<rparr>))"

section \<open>AWS services: volumes, block device mappings and launch\<close>

subsection \<open>Python values\<close>

text \<open>
  The arguments of the AWS services are dynamically typed: a placement zone, a
  snapshot, an image, an instance type or a key pair is given either as an object or by
  its name or identifier.  An object is kept as its class with the two attributes that
  the services read, \<open>id\<close> and \<open>name\<close>.
\<close>

datatype py_class =
  PlacementZone | AWSSnapshot | MachineImage | InstanceType | KeyPair

datatype pyval =
    PNone
  | PStr string
  | PObj py_class (obj_id: string) (obj_name: string)

fun isinstance :: "pyval \<Rightarrow> py_class \<Rightarrow> bool" where
  "isinstance (PObj c i n) k = (c = k)"
| "isinstance v k = False"

text \<open>Truth value of a Python value: \<open>None\<close> and the empty string are false.\<close>

fun truthy :: "pyval \<Rightarrow> bool" where
  "truthy PNone = False"
| "truthy (PStr s) = (s \<noteq> [])"
| "truthy (PObj c i n) = True"

text \<open>Reading \<open>id\<close>; \<open>None\<close> and strings have no such attribute.\<close>

fun attr_id :: "pyval \<Rightarrow> error + pyval" where
  "attr_id (PObj c i n) = Inr (PStr i)"
| "attr_id v = Inl AttributeError"

text \<open>
  The conversions \<open>x.id if isinstance(x, C) else x\<close> and
  \<open>x.name if isinstance(x, C) else x\<close> of the arguments.
\<close>

definition id_if :: "py_class \<Rightarrow> pyval \<Rightarrow> pyval" where
  "id_if c v = (if isinstance v c then PStr (obj_id v) else v)"

definition name_if :: "py_class \<Rightarrow> pyval \<Rightarrow> pyval" where
  "name_if c v = (if isinstance v c then PStr (obj_name v) else v)"

subsection \<open>The EC2 connection and the calls made on it\<close>

record create_volume_call =
  cv_size :: "int option"
  cv_zone :: pyval
  cv_snapshot :: pyval

text \<open>
  The launch configuration's entries.  \<open>source\<close> is \<open>None\<close> or an object of one of the
  interface classes \<open>Snapshot\<close>, \<open>Volume\<close> and \<open>MachineImage\<close>, given with its \<open>id\<close>.
\<close>

datatype source = SrcNone | SrcSnapshot string | SrcVolume string | SrcMachineImage string

record block_device =
  is_volume :: bool
  is_root :: bool
  source :: source
  device_size :: "int option"
  delete_on_terminate :: "bool option"

record launch_config =
  block_devices :: "block_device list"
  net_ids :: "string list"

text \<open>
  boto's \<open>BlockDeviceType\<close>, by the attributes that the service assigns; a fresh one has
  none of them set.  boto's \<open>BlockDeviceMapping\<close> is a dictionary from device names to
  such objects, kept here as its items in insertion order.
\<close>

record BlockDeviceType =
  bdt_snapshot_id :: "string option"
  bdt_volume_id :: "string option"
  bdt_delete_on_terminate :: "bool option"
  bdt_size :: "int option"
  bdt_ephemeral_name :: "string option"

definition BlockDeviceType_new :: BlockDeviceType where
  "BlockDeviceType_new =
     \<lparr>bdt_snapshot_id = None, bdt_volume_id = None, bdt_delete_on_terminate = None,
      bdt_size = None, bdt_ephemeral_name = None\<rparr>"

type_synonym BlockDeviceMapping = "(string \<times> BlockDeviceType) list"

record run_instances_call =
  ri_image_id :: pyval
  ri_instance_type :: pyval
  ri_min_count :: nat
  ri_max_count :: nat
  ri_placement :: pyval
  ri_key_name :: pyval
  ri_security_groups :: "string list option"
  ri_user_data :: pyval
  ri_block_device_map :: "BlockDeviceMapping option"
  ri_subnet_id :: "string option"

text \<open>
  A reservation lists the EC2 instances that were started, here by their identifiers.
  \<open>run_instances\<close> answers with a reservation, with \<open>None\<close>, or it raises.
\<close>

record reservation =
  instances :: "string list"

text \<open>
  The EC2 connection is a collaborator.  Its answer to \<open>create_volume\<close> may depend on
  the number of volumes created so far and on the arguments: it is the identifier of
  the new volume, or an error.
\<close>

record ec2_conn =
  create_volume :: "nat \<Rightarrow> create_volume_call \<Rightarrow> error + string"
  run_instances :: "run_instances_call \<Rightarrow> error + reservation option"

text \<open>What has been requested from EC2 so far, oldest call first.\<close>

record world =
  volume_calls :: "create_volume_call list"
  instance_calls :: "run_instances_call list"

text \<open>
  Modelled from the spec: the wrappers \<open>AWSVolume\<close> and \<open>AWSInstance\<close> of
  \<open>aws/resources.py\<close>.  Each holds the identifier of the EC2 object it wraps, and
  assigning to \<open>name\<close> gives it the requested display name.
\<close>

record AWSVolume =
  vol_id :: string
  vol_name :: string

record AWSInstance =
  instance_id :: string
  instance_name :: string

subsection \<open>\<open>AWSVolumeService.create\<close>\<close>

definition AWSVolumeService_create ::
  "ec2_conn \<Rightarrow> string \<Rightarrow> int option \<Rightarrow> pyval \<Rightarrow> pyval \<Rightarrow> world
     \<Rightarrow> (error + AWSVolume) \<times> world" where
  "AWSVolumeService_create ec2 name sz zone snap w =
     (let zone_name = name_if PlacementZone zone in
      case (if isinstance zone AWSSnapshot \<and> truthy snap then attr_id snap
            else Inr snap) of
        Inl e \<Rightarrow> (Inl e, w)
      | Inr snapshot_id \<Rightarrow>
         (let call = \<lparr>cv_size = sz, cv_zone = zone_name, cv_snapshot = snapshot_id\<rparr>;
              w' = w\<lparr>volume_calls := volume_calls w @ [call]\<rparr>
          in case create_volume ec2 (length (volume_calls w)) call of
               Inl e \<Rightarrow> (Inl e, w')
             | Inr ec2_vol \<Rightarrow> (Inr \<lparr>vol_id = ec2_vol, vol_name = name\<rparr>, w')))"

subsection \<open>\<open>AWSInstanceService._process_block_device_mappings\<close>\<close>

definition ascii_lowercase :: string where
  "ascii_lowercase = ''abcdefghijklmnopqrstuvwxyz''"

text \<open>Python's \<open>'%s' % n\<close> for a natural number: its decimal digits.\<close>

definition digit :: "nat \<Rightarrow> char" where
  "digit d = ''0123456789'' ! d"

fun str_of_nat :: "nat \<Rightarrow> string" where
  "str_of_nat n =
     (if n < 10 then [digit n]
      else str_of_nat (n div 10) @ [digit (n mod 10)])"

text \<open>
  The variables of the loop: the mapping built so far, the letters that the iterator
  \<open>next_letter\<close> has not handed out yet, and the ephemeral counter.
\<close>

record loop_state =
  bdm :: BlockDeviceMapping
  next_letter :: string
  ephemeral_counter :: nat

text \<open>
  The first part of the volume branch: the device name under which the new
  \<open>BlockDeviceType\<close> is stored.  \<open>next\<close> on an exhausted iterator raises
  \<open>StopIteration\<close>.
\<close>

definition device_key :: "block_device \<Rightarrow> string \<Rightarrow> error + string \<times> string" where
  "device_key device letters =
     (if is_root device then Inr (''/dev/sda1'', letters)
      else case letters of
             [] \<Rightarrow> Inl StopIteration
           | c # cs \<Rightarrow> Inr (''sd'' @ [c], cs))"

text \<open>
  The \<open>isinstance\<close> chain on \<open>device.source\<close>; the last branch creates a blank volume
  through the provider's volume service.
\<close>

definition resolve_source ::
  "ec2_conn \<Rightarrow> pyval \<Rightarrow> block_device \<Rightarrow> BlockDeviceType \<Rightarrow> world
     \<Rightarrow> (error + BlockDeviceType) \<times> world" where
  "resolve_source ec2 zone device bd_type w =
     (case source device of
        SrcSnapshot i \<Rightarrow> (Inr (bd_type\<lparr>bdt_snapshot_id := Some i\<rparr>), w)
      | SrcVolume i \<Rightarrow> (Inr (bd_type\<lparr>bdt_volume_id := Some i\<rparr>), w)
      | SrcMachineImage i \<Rightarrow> (Inr bd_type, w)
      | SrcNone \<Rightarrow>
         (case AWSVolumeService_create ec2 [] (device_size device) zone PNone w of
            (Inl e, w') \<Rightarrow> (Inl e, w')
          | (Inr new_vol, w') \<Rightarrow> (Inr (bd_type\<lparr>bdt_volume_id := Some (vol_id new_vol)\<rparr>), w')))"

text \<open>\<open>if device.size:\<close> holds for an integer other than zero.\<close>

definition size_truthy :: "int option \<Rightarrow> bool" where
  "size_truthy sz = (case sz of None \<Rightarrow> False | Some n \<Rightarrow> n \<noteq> 0)"

text \<open>The descriptor that the ephemeral branch builds.\<close>

definition ephemeral_bd_type :: "nat \<Rightarrow> BlockDeviceType" where
  "ephemeral_bd_type counter =
     BlockDeviceType_new\<lparr>bdt_ephemeral_name := Some (''ephemeral'' @ str_of_nat counter)\<rparr>"

text \<open>
  One pass of the loop body.  In the volume branch the object is stored in the mapping
  first and filled in afterwards; since the mapping holds a reference, it ends up with
  the filled-in object, which is what the model stores.  In the ephemeral branch the
  object is built and then neither stored nor counted.
\<close>

definition process_device ::
  "ec2_conn \<Rightarrow> pyval \<Rightarrow> block_device \<Rightarrow> loop_state \<Rightarrow> world
     \<Rightarrow> (error + loop_state) \<times> world" where
  "process_device ec2 zone device st w =
     (if is_volume device then
        (case device_key device (next_letter st) of
           Inl e \<Rightarrow> (Inl e, w)
         | Inr (key, letters) \<Rightarrow>
            (case resolve_source ec2 zone device BlockDeviceType_new w of
               (Inl e, w') \<Rightarrow> (Inl e, w')
             | (Inr bd1, w') \<Rightarrow>
                (let bd2 = bd1\<lparr>bdt_delete_on_terminate := delete_on_terminate device\<rparr>;
                     bd3 = (if size_truthy (device_size device)
                            then bd2\<lparr>bdt_size := device_size device\<rparr> else bd2)
                 in (Inr (st\<lparr>bdm := AList.update key bd3 (bdm st), next_letter := letters\<rparr>),
                     w'))))
      else
        (let bd_type = ephemeral_bd_type (ephemeral_counter st) in (Inr st, w)))"

fun process_devices ::
  "ec2_conn \<Rightarrow> pyval \<Rightarrow> block_device list \<Rightarrow> loop_state \<Rightarrow> world
     \<Rightarrow> (error + loop_state) \<times> world" where
  "process_devices ec2 zone [] st w = (Inr st, w)"
| "process_devices ec2 zone (device # rest) st w =
     (case process_device ec2 zone device st w of
        (Inl e, w') \<Rightarrow> (Inl e, w')
      | (Inr st', w') \<Rightarrow> process_devices ec2 zone rest st' w')"

text \<open>The letters that the iterator hands out: \<open>string.ascii_lowercase[6:]\<close>.\<close>

definition device_letters :: string where
  "device_letters = drop 6 ascii_lowercase"

definition initial_loop_state :: loop_state where
  "initial_loop_state =
     \<lparr>bdm = [], next_letter = device_letters, ephemeral_counter = 0\<rparr>"

definition process_block_device_mappings ::
  "ec2_conn \<Rightarrow> launch_config \<Rightarrow> pyval \<Rightarrow> world
     \<Rightarrow> (error + BlockDeviceMapping) \<times> world" where
  "process_block_device_mappings ec2 lc zone w =
     (case process_devices ec2 zone (block_devices lc) initial_loop_state w of
        (Inl e, w') \<Rightarrow> (Inl e, w')
      | (Inr st, w') \<Rightarrow> (Inr (bdm st), w'))"

definition get_net_id :: "launch_config \<Rightarrow> string option" where
  "get_net_id lc = (case net_ids lc of [] \<Rightarrow> None | n # ns \<Rightarrow> Some n)"

subsection \<open>\<open>AWSInstanceService.create\<close>\<close>

text \<open>
  The security groups are given as nothing, as a list of \<open>SecurityGroup\<close> objects (kept
  by their names) or as a list of names; an empty list counts as nothing.
\<close>

datatype security_groups_arg =
  SGNone | SGObjects "string list" | SGNames "string list"

fun security_groups_list :: "security_groups_arg \<Rightarrow> string list option" where
  "security_groups_list SGNone = None"
| "security_groups_list (SGObjects sgs) = (if sgs = [] then None else Some sgs)"
| "security_groups_list (SGNames sgs) = (if sgs = [] then None else Some sgs)"

text \<open>
  The part of \<open>create\<close> that follows the call of \<open>run_instances\<close>: the local variable
  \<open>instance\<close> is bound only when the reservation is truthy.
\<close>

definition instance_of_reservation ::
  "string \<Rightarrow> reservation option \<Rightarrow> error + AWSInstance" where
  "instance_of_reservation name r =
     (case r of
        None \<Rightarrow> Inl UnboundLocalError
      | Some res \<Rightarrow>
         (case instances res of
            [] \<Rightarrow> Inl IndexError
          | i # is \<Rightarrow> Inr \<lparr>instance_id = i, instance_name = name\<rparr>))"

definition AWSInstanceService_create ::
  "ec2_conn \<Rightarrow> string \<Rightarrow> pyval \<Rightarrow> pyval \<Rightarrow> pyval \<Rightarrow> pyval \<Rightarrow> security_groups_arg
     \<Rightarrow> pyval \<Rightarrow> launch_config option \<Rightarrow> world \<Rightarrow> (error + AWSInstance) \<times> world" where
  "AWSInstanceService_create ec2 name img instance_type zone keypair security_groups
       user_data lc w =
     (let image_id = id_if MachineImage img;
          instance_size = name_if InstanceType instance_type;
          zone_name = name_if PlacementZone zone;
          keypair_name = name_if KeyPair keypair;
          sgs = security_groups_list security_groups
      in case (case lc of
                 Some c \<Rightarrow>
                  (case process_block_device_mappings ec2 c zone_name w of
                     (Inl e, w') \<Rightarrow> (Inl e, w')
                   | (Inr m, w') \<Rightarrow> (Inr (Some m, get_net_id c), w'))
               | None \<Rightarrow> (Inr (None, None), w)) of
           (Inl e, w') \<Rightarrow> (Inl e, w')
         | (Inr (bd_map, net_id), w') \<Rightarrow>
            (let call = \<lparr>ri_image_id = image_id, ri_instance_type = instance_size,
                         ri_min_count = 1, ri_max_count = 1, ri_placement = zone_name,
                         ri_key_name = keypair_name, ri_security_groups = sgs,
                         ri_user_data = user_data, ri_block_device_map = bd_map,
                         ri_subnet_id = net_id\<rparr>;
                 w'' = w'\<lparr>instance_calls := instance_calls w' @ [call]\<rparr>
             in case run_instances ec2 call of
                  Inl e \<Rightarrow> (Inl e, w'')
                | Inr r \<Rightarrow> (instance_of_reservation name r, w'')))"

section \<open>Example inputs\<close>

definition example_object :: "string \<Rightarrow> os_object" where
  "example_object st =
     \<lparr>os_id = ''r-1'', os_name = ''one'', status = st, os_attrs = [(''flavor'', ''m1'')]\<rparr>"

definition example_get :: "(os_object \<Rightarrow> 'a) \<Rightarrow> string \<Rightarrow> error + 'a option" where
  "example_get wrap k =
     (if k = ''r-1'' then Inr (Some (wrap (example_object ''available''))) else Inr None)"

definition example_ec2 :: ec2_conn where
  "example_ec2 =
     \<lparr>create_volume = (\<lambda>n c. Inr (''vol-'' @ str_of_nat n)),
      run_instances = (\<lambda>c. Inr (Some \<lparr>instances = [''i-1'']\<rparr>))\<rparr>"

definition silent_ec2 :: ec2_conn where
  "silent_ec2 =
     \<lparr>create_volume = (\<lambda>n c. Inr (''vol-'' @ str_of_nat n)),
      run_instances = (\<lambda>c. Inr None)\<rparr>"

definition empty_world :: world where
  "empty_world = \<lparr>volume_calls = [], instance_calls = []\<rparr>"

definition root_blank_device :: block_device where
  "root_blank_device =
     \<lparr>is_volume = True, is_root = True, source = SrcNone, device_size = Some 8,
      delete_on_terminate = Some True\<rparr>"

definition two_roots_config :: launch_config where
  "two_roots_config =
     \<lparr>block_devices = [root_blank_device, root_blank_device\<lparr>device_size := Some 16\<rparr>],
      net_ids = []\<rparr>"

definition ephemeral_device :: block_device where
  "ephemeral_device =
     \<lparr>is_volume = False, is_root = False, source = SrcNone, device_size = None,
      delete_on_terminate = None\<rparr>"

definition root_snapshot_device :: block_device where
  "root_snapshot_device =
     \<lparr>is_volume = True, is_root = True, source = SrcSnapshot ''snap-1'', device_size = None,
      delete_on_terminate = Some True\<rparr>"

definition data_blank_device :: block_device where
  "data_blank_device =
     \<lparr>is_volume = True, is_root = False, source = SrcNone, device_size = Some 10,
      delete_on_terminate = Some False\<rparr>"

definition data_volume_device :: block_device where
  "data_volume_device =
     \<lparr>is_volume = True, is_root = False, source = SrcVolume ''vol-old'', device_size = None,
      delete_on_terminate = None\<rparr>"

definition mixed_config :: launch_config where
  "mixed_config =
     \<lparr>block_devices =
        [root_snapshot_device, data_blank_device, data_volume_device, ephemeral_device],
      net_ids = [''subnet-1'', ''subnet-2'']\<rparr>"

definition many_volumes_config :: launch_config where
  "many_volumes_config = \<lparr>block_devices = replicate 21 data_volume_device, net_ids = []\<rparr>"

definition late_blank_config :: launch_config where
  "late_blank_config =
     \<lparr>block_devices = replicate 20 data_volume_device @ [data_blank_device], net_ids = []\<rparr>"

subsection \<open>Notions used in the statements\<close>

text \<open>
  A blank volume is requested for a volume entry without a source; a letter is taken for
  a volume entry that is not root; a root volume entry is one that is stored under the
  root device name.
\<close>

definition blank_volume :: "block_device \<Rightarrow> bool" where
  "blank_volume d = (is_volume d \<and> source d = SrcNone)"

definition lettered :: "block_device \<Rightarrow> bool" where
  "lettered d = (is_volume d \<and> \<not> is_root d)"

definition root_volume :: "block_device \<Rightarrow> bool" where
  "root_volume d = (is_volume d \<and> is_root d)"

definition blank_volume_call :: "pyval \<Rightarrow> block_device \<Rightarrow> create_volume_call" where
  "blank_volume_call zone d =
     \<lparr>cv_size = device_size d, cv_zone = name_if PlacementZone zone, cv_snapshot = PNone\<rparr>"

definition filled_bd_type :: "block_device \<Rightarrow> BlockDeviceType \<Rightarrow> BlockDeviceType" where
  "filled_bd_type device bd1 =
     (let bd2 = bd1\<lparr>bdt_delete_on_terminate := delete_on_terminate device\<rparr>
      in if size_truthy (device_size device) then bd2\<lparr>bdt_size := device_size device\<rparr> else bd2)"

section \<open>Properties\<close>

subsection \<open>State normalization\<close>

lemma dict_get_absent: "k \<notin> set (map fst d) \<Longrightarrow> dict_get d k dflt = dflt"
proof -
  assume "k \<notin> set (map fst d)"
  then have "map_of d k = None"
    by (simp add: map_of_eq_None_iff)
  then show ?thesis
    by (simp add: dict_get_def)
qed

lemma dict_get_present:
  "distinct (map fst d) \<Longrightarrow> (k, v) \<in> set d \<Longrightarrow> dict_get d k dflt = v"
  by (simp add: dict_get_def)

text \<open>
  No key occurs twice in a table, so the list of items stands for the same dictionary
  as the Python literal.
\<close>

lemma IMAGE_STATE_MAP_distinct: "distinct (map fst IMAGE_STATE_MAP)"
  by (simp add: IMAGE_STATE_MAP_def)

lemma INSTANCE_STATE_MAP_distinct: "distinct (map fst INSTANCE_STATE_MAP)"
  by (simp add: INSTANCE_STATE_MAP_def)

lemma VOLUME_STATE_MAP_distinct: "distinct (map fst VOLUME_STATE_MAP)"
  by (simp add: VOLUME_STATE_MAP_def)

lemma SNAPSHOT_STATE_MAP_distinct: "distinct (map fst SNAPSHOT_STATE_MAP)"
  by (simp add: SNAPSHOT_STATE_MAP_def)

text \<open>
  Claim C4.  For each of the four resource kinds, the \<open>state\<close> property is total: a raw
  status that is not a key of the kind's table gives the state \<open>UNKNOWN\<close>, and a raw
  status that is a key of the table gives exactly the state listed with it.
\<close>

theorem state_normalization:
  "(status (os_instance i) \<notin> set (map fst INSTANCE_STATE_MAP)
      \<longrightarrow> OpenStackInstance_state i = InstanceState_UNKNOWN) \<and>
   ((status (os_instance i), ci) \<in> set INSTANCE_STATE_MAP
      \<longrightarrow> OpenStackInstance_state i = ci) \<and>
   (status (volume v) \<notin> set (map fst VOLUME_STATE_MAP)
      \<longrightarrow> OpenStackVolume_state v = VolumeState_UNKNOWN) \<and>
   ((status (volume v), cv) \<in> set VOLUME_STATE_MAP
      \<longrightarrow> OpenStackVolume_state v = cv) \<and>
   (status (snapshot s) \<notin> set (map fst SNAPSHOT_STATE_MAP)
      \<longrightarrow> OpenStackSnapshot_state s = SnapshotState_UNKNOWN) \<and>
   ((status (snapshot s), cs) \<in> set SNAPSHOT_STATE_MAP
      \<longrightarrow> OpenStackSnapshot_state s = cs) \<and>
   (status (os_image m) \<notin> set (map fst IMAGE_STATE_MAP)
      \<longrightarrow> OpenStackMachineImage_state m = MachineImageState_UNKNOWN) \<and>
   ((status (os_image m), cm) \<in> set IMAGE_STATE_MAP
      \<longrightarrow> OpenStackMachineImage_state m = cm)"
  unfolding OpenStackInstance_state_def OpenStackVolume_state_def
    OpenStackSnapshot_state_def OpenStackMachineImage_state_def
  by (intro conjI impI dict_get_absent dict_get_present IMAGE_STATE_MAP_distinct
        INSTANCE_STATE_MAP_distinct VOLUME_STATE_MAP_distinct SNAPSHOT_STATE_MAP_distinct)

theorem state_normalization_witness:
  "OpenStackInstance_state \<lparr>os_instance = example_object ''SHELVED''\<rparr> = InstanceState_UNKNOWN \<and>
   OpenStackInstance_state \<lparr>os_instance = example_object ''ACTIVE''\<rparr> = InstanceState_RUNNING \<and>
   OpenStackVolume_state \<lparr>volume = example_object ''ACTIVE''\<rparr> = VolumeState_UNKNOWN \<and>
   OpenStackVolume_state \<lparr>volume = example_object ''in-use''\<rparr> = VolumeState_IN_USE \<and>
   OpenStackSnapshot_state \<lparr>snapshot = example_object ''in-use''\<rparr> = SnapshotState_UNKNOWN \<and>
   OpenStackSnapshot_state \<lparr>snapshot = example_object ''deleting''\<rparr> = SnapshotState_CONFIGURING \<and>
   OpenStackMachineImage_state \<lparr>os_image = example_object ''deleting''\<rparr> = MachineImageState_UNKNOWN \<and>
   OpenStackMachineImage_state \<lparr>os_image = example_object ''KILLED''\<rparr> = MachineImageState_ERROR"
  using
    state_normalization [of "\<lparr>os_instance = example_object ''SHELVED''\<rparr>" InstanceState_RUNNING
      "\<lparr>volume = example_object ''ACTIVE''\<rparr>" VolumeState_IN_USE
      "\<lparr>snapshot = example_object ''in-use''\<rparr>" SnapshotState_CONFIGURING
      "\<lparr>os_image = example_object ''deleting''\<rparr>" MachineImageState_ERROR]
    state_normalization [of "\<lparr>os_instance = example_object ''ACTIVE''\<rparr>" InstanceState_RUNNING
      "\<lparr>volume = example_object ''in-use''\<rparr>" VolumeState_IN_USE
      "\<lparr>snapshot = example_object ''deleting''\<rparr>" SnapshotState_CONFIGURING
      "\<lparr>os_image = example_object ''KILLED''\<rparr>" MachineImageState_ERROR]
  by (simp add: example_object_def INSTANCE_STATE_MAP_def VOLUME_STATE_MAP_def
        SNAPSHOT_STATE_MAP_def IMAGE_STATE_MAP_def)

subsection \<open>Refresh\<close>

lemma unknown_states:
  "dict_get INSTANCE_STATE_MAP ''unknown'' InstanceState_UNKNOWN = InstanceState_UNKNOWN"
  "dict_get VOLUME_STATE_MAP ''unknown'' VolumeState_UNKNOWN = VolumeState_UNKNOWN"
  "dict_get SNAPSHOT_STATE_MAP ''unknown'' SnapshotState_UNKNOWN = SnapshotState_UNKNOWN"
  "dict_get IMAGE_STATE_MAP ''unknown'' MachineImageState_UNKNOWN = MachineImageState_UNKNOWN"
  by (simp_all add: dict_get_def INSTANCE_STATE_MAP_def VOLUME_STATE_MAP_def
        SNAPSHOT_STATE_MAP_def IMAGE_STATE_MAP_def)

text \<open>
  Claim C3.  When the provider no longer knows the resource's identifier, \<open>refresh\<close>
  returns normally for each of the four resource kinds: the cached object's status is
  the string \<open>unknown\<close>, the resource's state is \<open>UNKNOWN\<close>, and putting the old status
  back gives the old cached object, so every other field has kept its value.
\<close>

theorem refresh_not_found:
  "(instances_get (os_id (os_instance i)) = Inr None \<longrightarrow>
      (\<exists>i'. OpenStackInstance_refresh instances_get i = Inr i' \<and>
            status (os_instance i') = ''unknown'' \<and>
            OpenStackInstance_state i' = InstanceState_UNKNOWN \<and>
            (os_instance i')\<lparr>status := status (os_instance i)\<rparr> = os_instance i)) \<and>
   (volumes_get (os_id (volume v)) = Inr None \<longrightarrow>
      (\<exists>v'. OpenStackVolume_refresh volumes_get v = Inr v' \<and>
            status (volume v') = ''unknown'' \<and>
            OpenStackVolume_state v' = VolumeState_UNKNOWN \<and>
            (volume v')\<lparr>status := status (volume v)\<rparr> = volume v)) \<and>
   (snapshots_get (os_id (snapshot s)) = Inr None \<longrightarrow>
      (\<exists>s'. OpenStackSnapshot_refresh snapshots_get s = Inr s' \<and>
            status (snapshot s') = ''unknown'' \<and>
            OpenStackSnapshot_state s' = SnapshotState_UNKNOWN \<and>
            (snapshot s')\<lparr>status := status (snapshot s)\<rparr> = snapshot s)) \<and>
   (images_get (os_id (os_image m)) = Inr None \<longrightarrow>
      (\<exists>m'. OpenStackMachineImage_refresh images_get m = Inr m' \<and>
            status (os_image m') = ''unknown'' \<and>
            OpenStackMachineImage_state m' = MachineImageState_UNKNOWN \<and>
            (os_image m')\<lparr>status := status (os_image m)\<rparr> = os_image m))"
  by (simp add: OpenStackInstance_refresh_def OpenStackVolume_refresh_def
        OpenStackSnapshot_refresh_def OpenStackMachineImage_refresh_def
        OpenStackInstance_state_def OpenStackVolume_state_def
        OpenStackSnapshot_state_def OpenStackMachineImage_state_def unknown_states)

theorem refresh_not_found_witness:
  "(\<exists>i'. OpenStackInstance_refresh (\<lambda>k. Inr None) \<lparr>os_instance = example_object ''ACTIVE''\<rparr> = Inr i' \<and>
        status (os_instance i') = ''unknown'' \<and>
        OpenStackInstance_state i' = InstanceState_UNKNOWN \<and>
        (os_instance i')\<lparr>status := ''ACTIVE''\<rparr> = example_object ''ACTIVE'') \<and>
   (\<exists>v'. OpenStackVolume_refresh (\<lambda>k. Inr None) \<lparr>volume = example_object ''in-use''\<rparr> = Inr v' \<and>
        status (volume v') = ''unknown'' \<and>
        OpenStackVolume_state v' = VolumeState_UNKNOWN \<and>
        (volume v')\<lparr>status := ''in-use''\<rparr> = example_object ''in-use'') \<and>
   (\<exists>s'. OpenStackSnapshot_refresh (\<lambda>k. Inr None) \<lparr>snapshot = example_object ''available''\<rparr> = Inr s' \<and>
        status (snapshot s') = ''unknown'' \<and>
        OpenStackSnapshot_state s' = SnapshotState_UNKNOWN \<and>
        (snapshot s')\<lparr>status := ''available''\<rparr> = example_object ''available'') \<and>
   (\<exists>m'. OpenStackMachineImage_refresh (\<lambda>k. Inr None) \<lparr>os_image = example_object ''SAVING''\<rparr> = Inr m' \<and>
        status (os_image m') = ''unknown'' \<and>
        OpenStackMachineImage_state m' = MachineImageState_UNKNOWN \<and>
        (os_image m')\<lparr>status := ''SAVING''\<rparr> = example_object ''SAVING'')"
  using refresh_not_found [of "\<lambda>k. Inr None" "\<lparr>os_instance = example_object ''ACTIVE''\<rparr>"
      "\<lambda>k. Inr None" "\<lparr>volume = example_object ''in-use''\<rparr>"
      "\<lambda>k. Inr None" "\<lparr>snapshot = example_object ''available''\<rparr>"
      "\<lambda>k. Inr None" "\<lparr>os_image = example_object ''SAVING''\<rparr>"]
  by (simp add: example_object_def)

lemma instance_refresh_again:
  "OpenStackInstance_refresh g i = Inr i1 \<Longrightarrow>
   g (os_id (os_instance i1)) = g (os_id (os_instance i)) \<Longrightarrow>
   OpenStackInstance_refresh g i1 = Inr i1"
  by (auto simp: OpenStackInstance_refresh_def split: sum.splits option.splits)

lemma volume_refresh_again:
  "OpenStackVolume_refresh g v = Inr v1 \<Longrightarrow>
   g (os_id (volume v1)) = g (os_id (volume v)) \<Longrightarrow>
   OpenStackVolume_refresh g v1 = Inr v1"
  by (auto simp: OpenStackVolume_refresh_def split: sum.splits option.splits)

lemma snapshot_refresh_again:
  "OpenStackSnapshot_refresh g s = Inr s1 \<Longrightarrow>
   g (os_id (snapshot s1)) = g (os_id (snapshot s)) \<Longrightarrow>
   OpenStackSnapshot_refresh g s1 = Inr s1"
  by (auto simp: OpenStackSnapshot_refresh_def split: sum.splits option.splits)

lemma image_refresh_again:
  "OpenStackMachineImage_refresh g m = Inr m1 \<Longrightarrow>
   g (os_id (os_image m1)) = g (os_id (os_image m)) \<Longrightarrow>
   OpenStackMachineImage_refresh g m1 = Inr m1"
  by (auto simp: OpenStackMachineImage_refresh_def split: sum.splits option.splits)

lemma instance_refresh_gone:
  "g (os_id (os_instance i)) = Inr None \<Longrightarrow> OpenStackInstance_refresh g i = Inr i1 \<Longrightarrow>
   OpenStackInstance_refresh g i1 = Inr i1"
  by (auto simp: OpenStackInstance_refresh_def)

lemma volume_refresh_gone:
  "g (os_id (volume v)) = Inr None \<Longrightarrow> OpenStackVolume_refresh g v = Inr v1 \<Longrightarrow>
   OpenStackVolume_refresh g v1 = Inr v1"
  by (auto simp: OpenStackVolume_refresh_def)

lemma snapshot_refresh_gone:
  "g (os_id (snapshot s)) = Inr None \<Longrightarrow> OpenStackSnapshot_refresh g s = Inr s1 \<Longrightarrow>
   OpenStackSnapshot_refresh g s1 = Inr s1"
  by (auto simp: OpenStackSnapshot_refresh_def)

lemma image_refresh_gone:
  "g (os_id (os_image m)) = Inr None \<Longrightarrow> OpenStackMachineImage_refresh g m = Inr m1 \<Longrightarrow>
   OpenStackMachineImage_refresh g m1 = Inr m1"
  by (auto simp: OpenStackMachineImage_refresh_def)

text \<open>
  Claim C8.  For each of the four resource kinds: if \<open>refresh\<close> returned and the
  provider answers the second query as it answered the first, a second \<open>refresh\<close>
  returns the same resource once more; a resource that was not found the first time is
  in that case, so refreshing it again changes nothing.
\<close>

theorem refresh_idempotent:
  "(OpenStackInstance_refresh gi i = Inr i1 \<and>
      (gi (os_id (os_instance i1)) = gi (os_id (os_instance i)) \<or>
       gi (os_id (os_instance i)) = Inr None)
      \<longrightarrow> OpenStackInstance_refresh gi i1 = Inr i1) \<and>
   (OpenStackVolume_refresh gv v = Inr v1 \<and>
      (gv (os_id (volume v1)) = gv (os_id (volume v)) \<or>
       gv (os_id (volume v)) = Inr None)
      \<longrightarrow> OpenStackVolume_refresh gv v1 = Inr v1) \<and>
   (OpenStackSnapshot_refresh gs s = Inr s1 \<and>
      (gs (os_id (snapshot s1)) = gs (os_id (snapshot s)) \<or>
       gs (os_id (snapshot s)) = Inr None)
      \<longrightarrow> OpenStackSnapshot_refresh gs s1 = Inr s1) \<and>
   (OpenStackMachineImage_refresh gm m = Inr m1 \<and>
      (gm (os_id (os_image m1)) = gm (os_id (os_image m)) \<or>
       gm (os_id (os_image m)) = Inr None)
      \<longrightarrow> OpenStackMachineImage_refresh gm m1 = Inr m1)"
proof (intro conjI impI)
  assume "OpenStackInstance_refresh gi i = Inr i1 \<and>
      (gi (os_id (os_instance i1)) = gi (os_id (os_instance i)) \<or>
       gi (os_id (os_instance i)) = Inr None)"
  then show "OpenStackInstance_refresh gi i1 = Inr i1"
    using instance_refresh_again [of gi i i1] instance_refresh_gone [of gi i i1] by blast
next
  assume "OpenStackVolume_refresh gv v = Inr v1 \<and>
      (gv (os_id (volume v1)) = gv (os_id (volume v)) \<or>
       gv (os_id (volume v)) = Inr None)"
  then show "OpenStackVolume_refresh gv v1 = Inr v1"
    using volume_refresh_again [of gv v v1] volume_refresh_gone [of gv v v1] by blast
next
  assume "OpenStackSnapshot_refresh gs s = Inr s1 \<and>
      (gs (os_id (snapshot s1)) = gs (os_id (snapshot s)) \<or>
       gs (os_id (snapshot s)) = Inr None)"
  then show "OpenStackSnapshot_refresh gs s1 = Inr s1"
    using snapshot_refresh_again [of gs s s1] snapshot_refresh_gone [of gs s s1] by blast
next
  assume "OpenStackMachineImage_refresh gm m = Inr m1 \<and>
      (gm (os_id (os_image m1)) = gm (os_id (os_image m)) \<or>
       gm (os_id (os_image m)) = Inr None)"
  then show "OpenStackMachineImage_refresh gm m1 = Inr m1"
    using image_refresh_again [of gm m m1] image_refresh_gone [of gm m m1] by blast
qed

theorem refresh_idempotent_witness:
  "OpenStackInstance_refresh (example_get (\<lambda>p. \<lparr>os_instance = p\<rparr>))
       \<lparr>os_instance = example_object ''available''\<rparr> =
     Inr \<lparr>os_instance = example_object ''available''\<rparr> \<and>
   OpenStackVolume_refresh (example_get (\<lambda>p. \<lparr>volume = p\<rparr>))
       \<lparr>volume = example_object ''available''\<rparr> =
     Inr \<lparr>volume = example_object ''available''\<rparr> \<and>
   OpenStackSnapshot_refresh (\<lambda>k. Inr None) \<lparr>snapshot = example_object ''unknown''\<rparr> =
     Inr \<lparr>snapshot = example_object ''unknown''\<rparr> \<and>
   OpenStackMachineImage_refresh (\<lambda>k. Inr None) \<lparr>os_image = example_object ''unknown''\<rparr> =
     Inr \<lparr>os_image = example_object ''unknown''\<rparr>"
  using refresh_idempotent [of "example_get (\<lambda>p. \<lparr>os_instance = p\<rparr>)"
      "\<lparr>os_instance = example_object ''BUILD''\<rparr>"
      "\<lparr>os_instance = example_object ''available''\<rparr>"
      "example_get (\<lambda>p. \<lparr>volume = p\<rparr>)"
      "\<lparr>volume = example_object ''creating''\<rparr>"
      "\<lparr>volume = example_object ''available''\<rparr>"
      "\<lambda>k. Inr None"
      "\<lparr>snapshot = example_object ''creating''\<rparr>"
      "\<lparr>snapshot = example_object ''unknown''\<rparr>"
      "\<lambda>k. Inr None"
      "\<lparr>os_image = example_object ''ACTIVE''\<rparr>"
      "\<lparr>os_image = example_object ''unknown''\<rparr>"]
  by (simp add: example_get_def example_object_def OpenStackInstance_refresh_def
        OpenStackVolume_refresh_def OpenStackSnapshot_refresh_def
        OpenStackMachineImage_refresh_def)

subsection \<open>Volume creation\<close>

text \<open>
  Claim C10.  When the zone argument of \<open>AWSVolumeService.create\<close> is not an
  \<open>AWSSnapshot\<close>, the call made on the EC2 connection carries the snapshot argument as
  it was given, also when that argument is an \<open>AWSSnapshot\<close> object.
\<close>

theorem snapshot_forwarded_unchanged:
  "\<not> isinstance zone AWSSnapshot \<Longrightarrow>
   volume_calls (snd (AWSVolumeService_create ec2 name sz zone snap w)) =
     volume_calls w @ [\<lparr>cv_size = sz, cv_zone = name_if PlacementZone zone, cv_snapshot = snap\<rparr>]"
  by (simp add: AWSVolumeService_create_def Let_def split: sum.splits)

lemma AWSVolumeService_create_instance_calls:
  "instance_calls (snd (AWSVolumeService_create ec2 name sz zone snap w)) = instance_calls w"
  by (simp add: AWSVolumeService_create_def Let_def split: sum.splits)

lemma resolve_source_instance_calls:
  "instance_calls (snd (resolve_source ec2 zone device bd w)) = instance_calls w"
  using AWSVolumeService_create_instance_calls [of ec2 "[]" "device_size device" zone PNone w]
  by (auto simp: resolve_source_def split: source.splits prod.splits sum.splits)

lemma process_device_instance_calls:
  "instance_calls (snd (process_device ec2 zone device st w)) = instance_calls w"
  using resolve_source_instance_calls [of ec2 zone device BlockDeviceType_new w]
  by (auto simp: process_device_def Let_def split: sum.splits prod.splits)

lemma process_devices_instance_calls:
  "instance_calls (snd (process_devices ec2 zone ds st w)) = instance_calls w"
proof (induction ds arbitrary: st w)
  case Nil
  show ?case by simp
next
  case (Cons d ds)
  show ?case
    using process_device_instance_calls [of ec2 zone d st w] Cons.IH
    by (auto split: prod.splits sum.splits)
qed

lemma process_block_device_mappings_instance_calls:
  "instance_calls (snd (process_block_device_mappings ec2 lc zone w)) = instance_calls w"
  using process_devices_instance_calls [of ec2 zone "block_devices lc" initial_loop_state w]
  by (auto simp: process_block_device_mappings_def split: prod.splits sum.splits)


theorem snapshot_forwarded_unchanged_witness:
  "volume_calls (snd (AWSVolumeService_create
       example_ec2 ''data'' (Some 10) (PStr ''us-east-1a'') (PObj AWSSnapshot ''snap-1'' ''backup'')
       empty_world)) =
     [\<lparr>cv_size = Some 10, cv_zone = PStr ''us-east-1a'',
       cv_snapshot = PObj AWSSnapshot ''snap-1'' ''backup''\<rparr>]"
  using snapshot_forwarded_unchanged [of "PStr ''us-east-1a''"
      example_ec2 "''data''" "Some 10" "PObj AWSSnapshot ''snap-1'' ''backup''"
      empty_world]
  by (simp add: name_if_def empty_world_def)

subsection \<open>Launch\<close>

text \<open>
  Claim C9.  When \<open>create\<close> has called \<open>run_instances\<close> and the answer is \<open>None\<close>, the
  return statement reads a local variable that was never bound: \<open>create\<close> raises
  \<open>UnboundLocalError\<close> instead of returning.
\<close>

theorem create_unbound_instance:
  "instance_calls (snd (AWSInstanceService_create ec2 name img instance_type zone keypair
       security_groups user_data lc w)) = instance_calls w @ [call] \<Longrightarrow>
   run_instances ec2 call = Inr None \<Longrightarrow>
   fst (AWSInstanceService_create ec2 name img instance_type zone keypair
       security_groups user_data lc w) = Inl UnboundLocalError"
  using process_block_device_mappings_instance_calls
    [of ec2 "the lc" "name_if PlacementZone zone" w]
  by (auto simp: AWSInstanceService_create_def Let_def instance_of_reservation_def
      split: option.splits prod.splits sum.splits)


theorem create_unbound_instance_witness:
  "fst (AWSInstanceService_create silent_ec2 ''web'' (PStr ''ami-1'') (PStr ''t2.micro'')
         PNone PNone SGNone PNone None empty_world) = Inl UnboundLocalError"
  using create_unbound_instance [of silent_ec2 "''web''" "PStr ''ami-1''" "PStr ''t2.micro''"
      PNone PNone SGNone PNone None empty_world
      "\<lparr>ri_image_id = PStr ''ami-1'', ri_instance_type = PStr ''t2.micro'',
        ri_min_count = 1, ri_max_count = 1, ri_placement = PNone, ri_key_name = PNone,
        ri_security_groups = None, ri_user_data = PNone, ri_block_device_map = None,
        ri_subnet_id = None\<rparr>"]
  by (simp add: AWSInstanceService_create_def silent_ec2_def empty_world_def id_if_def
        name_if_def instance_of_reservation_def)

subsection \<open>The loop over the block devices\<close>

lemma device_letters_eq: "device_letters = ''ghijklmnopqrstuvwxyz''"
  by (simp add: device_letters_def ascii_lowercase_def)

lemma AWSVolumeService_create_blank:
  "AWSVolumeService_create ec2 name sz zone PNone w =
     (case create_volume ec2 (length (volume_calls w))
             \<lparr>cv_size = sz, cv_zone = name_if PlacementZone zone, cv_snapshot = PNone\<rparr> of
        Inl e \<Rightarrow> Inl e
      | Inr v \<Rightarrow> Inr \<lparr>vol_id = v, vol_name = name\<rparr>,
      w\<lparr>volume_calls := volume_calls w @
          [\<lparr>cv_size = sz, cv_zone = name_if PlacementZone zone, cv_snapshot = PNone\<rparr>]\<rparr>)"
  by (simp add: AWSVolumeService_create_def Let_def split: sum.splits)

lemma resolve_source_ok:
  assumes "resolve_source ec2 zone d bd w = (Inr bd', w')"
  shows "w' = w\<lparr>volume_calls := volume_calls w @
                  (if source d = SrcNone then [blank_volume_call zone d] else [])\<rparr>"
    and "source d = SrcNone \<Longrightarrow>
           \<exists>v. create_volume ec2 (length (volume_calls w)) (blank_volume_call zone d) = Inr v \<and>
               bd' = bd\<lparr>bdt_volume_id := Some v\<rparr>"
  using assms
  by (auto simp: resolve_source_def AWSVolumeService_create_blank blank_volume_call_def
      split: source.splits sum.splits)

lemma process_device_ok:
  assumes "process_device ec2 zone d st w = (Inr st', w')"
  shows "w' = w\<lparr>volume_calls := volume_calls w @
                  (if blank_volume d then [blank_volume_call zone d] else [])\<rparr>"
    and "next_letter st' = (if lettered d then tl (next_letter st) else next_letter st)"
    and "lettered d \<Longrightarrow> next_letter st \<noteq> []"
    and "ephemeral_counter st' = ephemeral_counter st"
    and "\<not> is_volume d \<Longrightarrow> st' = st"
    and "is_volume d \<Longrightarrow> \<exists>bd1 w1. resolve_source ec2 zone d BlockDeviceType_new w = (Inr bd1, w1) \<and>
           bdm st' = AList.update
             (if is_root d then ''/dev/sda1'' else ''sd'' @ [hd (next_letter st)])
             (filled_bd_type d bd1) (bdm st)"
  using assms resolve_source_ok(1) [of ec2 zone d BlockDeviceType_new w]
  by (auto simp: process_device_def device_key_def blank_volume_def lettered_def
      filled_bd_type_def Let_def
      split: if_splits sum.splits prod.splits list.splits)

lemma process_devices_append:
  "process_devices ec2 zone (xs @ ys) st w =
     (case process_devices ec2 zone xs st w of
        (Inl e, w') \<Rightarrow> (Inl e, w')
      | (Inr st', w') \<Rightarrow> process_devices ec2 zone ys st' w')"
  by (induction xs arbitrary: st w) (auto split: prod.splits sum.splits)

lemma process_devices_Cons_ok:
  assumes "process_devices ec2 zone (d # ds) st w = (Inr st', w')"
  obtains st1 w1 where "process_device ec2 zone d st w = (Inr st1, w1)"
    and "process_devices ec2 zone ds st1 w1 = (Inr st', w')"
  using assms by (auto split: prod.splits sum.splits)

lemma process_devices_ok:
  assumes "process_devices ec2 zone ds st w = (Inr st', w')"
  shows "w' = w\<lparr>volume_calls := volume_calls w @
                  map (blank_volume_call zone) (filter blank_volume ds)\<rparr>
         \<and> next_letter st' = drop (length (filter lettered ds)) (next_letter st)
         \<and> length (filter lettered ds) \<le> length (next_letter st)
         \<and> ephemeral_counter st' = ephemeral_counter st"
  using assms
proof (induction ds arbitrary: st w)
  case Nil
  then show ?case by simp
next
  case (Cons d ds)
  from Cons.prems obtain st1 w1
    where step: "process_device ec2 zone d st w = (Inr st1, w1)"
      and rest: "process_devices ec2 zone ds st1 w1 = (Inr st', w')"
    by (rule process_devices_Cons_ok)
  note s = process_device_ok [OF step]
  note r = Cons.IH [OF rest]
  show ?case
  proof (cases "lettered d")
    case True
    with s(3) have ne: "next_letter st \<noteq> []" by simp
    with True s r show ?thesis
      by (cases "next_letter st") (auto simp: drop_Suc)
  next
    case False
    with s r show ?thesis by auto
  qed
qed

lemma process_devices_keeps:
  assumes "process_devices ec2 zone ds st w = (Inr st', w')"
    and "k \<noteq> ''/dev/sda1''"
    and "\<forall>c\<in>set (next_letter st). k \<noteq> ''sd'' @ [c]"
  shows "map_of (bdm st') k = map_of (bdm st) k"
  using assms
proof (induction ds arbitrary: st w)
  case Nil
  then show ?case by simp
next
  case (Cons d ds)
  from Cons.prems(1) obtain st1 w1
    where step: "process_device ec2 zone d st w = (Inr st1, w1)"
      and rest: "process_devices ec2 zone ds st1 w1 = (Inr st', w')"
    by (rule process_devices_Cons_ok)
  note s = process_device_ok [OF step]
  have sub: "set (next_letter st1) \<subseteq> set (next_letter st)"
    using s(2) by (cases "next_letter st") auto
  with Cons.prems(3) have "\<forall>c\<in>set (next_letter st1). k \<noteq> ''sd'' @ [c]"
    by blast
  with Cons.IH [OF rest Cons.prems(2)]
  have later: "map_of (bdm st') k = map_of (bdm st1) k" .
  have "map_of (bdm st1) k = map_of (bdm st) k"
  proof (cases "is_volume d")
    case False
    with s(5) show ?thesis by simp
  next
    case True
    from s(6) [OF True] obtain bd1
      where upd: "bdm st1 = AList.update
             (if is_root d then ''/dev/sda1'' else ''sd'' @ [hd (next_letter st)])
             (filled_bd_type d bd1) (bdm st)"
      by blast
    show ?thesis
    proof (cases "is_root d")
      case True
      with upd Cons.prems(2) show ?thesis by (simp add: update_conv')
    next
      case False
      with \<open>is_volume d\<close> have "lettered d" by (simp add: lettered_def)
      with s(3) have "hd (next_letter st) \<in> set (next_letter st)" by simp
      with Cons.prems(3) have "k \<noteq> ''sd'' @ [hd (next_letter st)]" by blast
      with upd False show ?thesis by (simp add: update_conv')
    qed
  qed
  with later show ?case by simp
qed

lemma process_device_total:
  assumes "lettered d \<Longrightarrow> next_letter st \<noteq> []"
    and "\<And>n c. \<exists>v. create_volume ec2 n c = Inr v"
  shows "\<exists>st' w'. process_device ec2 zone d st w = (Inr st', w')"
proof -
  obtain v where v: "create_volume ec2 (length (volume_calls w))
      \<lparr>cv_size = device_size d, cv_zone = name_if PlacementZone zone, cv_snapshot = PNone\<rparr> = Inr v"
    using assms(2) by blast
  have "\<exists>bd1 w1. resolve_source ec2 zone d BlockDeviceType_new w = (Inr bd1, w1)"
    using v by (auto simp: resolve_source_def AWSVolumeService_create_blank
        split: source.splits)
  then show ?thesis
    using assms(1)
    by (auto simp: process_device_def device_key_def lettered_def Let_def
        split: list.splits)
qed

lemma process_devices_total:
  assumes "length (filter lettered ds) \<le> length (next_letter st)"
    and "\<And>n c. \<exists>v. create_volume ec2 n c = Inr v"
  shows "\<exists>st' w'. process_devices ec2 zone ds st w = (Inr st', w')"
  using assms(1)
proof (induction ds arbitrary: st w)
  case Nil
  then show ?case by simp
next
  case (Cons d ds)
  have "lettered d \<Longrightarrow> next_letter st \<noteq> []"
    using Cons.prems by auto
  from process_device_total [OF this assms(2)] obtain st1 w1
    where step: "process_device ec2 zone d st w = (Inr st1, w1)"
    by blast
  have "length (filter lettered ds) \<le> length (next_letter st1)"
    using process_device_ok(2) [OF step] Cons.prems by (auto split: if_splits)
  from Cons.IH [OF this] obtain st' w'
    where "process_devices ec2 zone ds st1 w1 = (Inr st', w')"
    by blast
  with step show ?case by simp
qed

lemma process_devices_ephemeral:
  "\<forall>d\<in>set ds. \<not> is_volume d \<Longrightarrow> process_devices ec2 zone ds st w = (Inr st, w)"
  by (induction ds) (auto simp: process_device_def)

lemma device_letters_distinct: "distinct device_letters"
  by (simp add: device_letters_def ascii_lowercase_def)

lemma device_letters_length: "length device_letters = 20"
  by (simp add: device_letters_def ascii_lowercase_def)

text \<open>
  The device names in the mapping after the loop, and the item under the root device
  name when no later entry is a root volume.
\<close>

lemma process_devices_keys:
  assumes "process_devices ec2 zone ds st w = (Inr st', w')"
  shows "fst ` set (bdm st') =
           fst ` set (bdm st) \<union> (if list_ex root_volume ds then {''/dev/sda1''} else {}) \<union>
           (\<lambda>c. ''sd'' @ [c]) ` set (take (length (filter lettered ds)) (next_letter st))"
  using assms
proof (induction ds arbitrary: st w)
  case Nil
  then show ?case by simp
next
  case (Cons d ds)
  define K where "K = ''/dev/sda1''"
  define f where "f = (\<lambda>c::char. ''sd'' @ [c])"
  from Cons.prems obtain st1 w1
    where step: "process_device ec2 zone d st w = (Inr st1, w1)"
      and rest: "process_devices ec2 zone ds st1 w1 = (Inr st', w')"
    by (rule process_devices_Cons_ok)
  note s = process_device_ok [OF step]
  have r: "fst ` set (bdm st') =
      fst ` set (bdm st1) \<union> (if list_ex root_volume ds then {K} else {}) \<union>
      f ` set (take (length (filter lettered ds)) (next_letter st1))"
    using Cons.IH [OF rest] by (simp only: K_def f_def)
  have "fst ` set (bdm st') =
      fst ` set (bdm st) \<union> (if list_ex root_volume (d # ds) then {K} else {}) \<union>
      f ` set (take (length (filter lettered (d # ds))) (next_letter st))"
  proof (cases "is_volume d")
    case False
    then have "\<not> root_volume d" "\<not> lettered d"
      by (simp_all add: root_volume_def lettered_def)
    moreover from s(5) [OF False] have "st1 = st" .
    ultimately show ?thesis
      using r by simp
  next
    case True
    from s(6) [OF True] obtain bd1
      where upd: "bdm st1 = AList.update
             (if is_root d then ''/dev/sda1'' else ''sd'' @ [hd (next_letter st)])
             (filled_bd_type d bd1) (bdm st)"
      by blast
    show ?thesis
    proof (cases "is_root d")
      case True
      with \<open>is_volume d\<close> have rv: "root_volume d" and nl: "\<not> lettered d"
        by (simp_all add: root_volume_def lettered_def)
      from upd True have keys1: "fst ` set (bdm st1) = insert K (fst ` set (bdm st))"
        by (simp add: dom_update K_def)
      from s(2) nl have letters1: "next_letter st1 = next_letter st" by simp
      have ex: "list_ex root_volume (d # ds)" using rv by simp
      have len: "length (filter lettered (d # ds)) = length (filter lettered ds)"
        using nl by simp
      show ?thesis
        unfolding r keys1 letters1 len using ex by auto
    next
      case False
      with \<open>is_volume d\<close> have rv: "\<not> root_volume d" and l: "lettered d"
        by (simp_all add: root_volume_def lettered_def)
      from s(3) [OF l] obtain c cs where letters: "next_letter st = c # cs"
        by (cases "next_letter st") auto
      from upd False letters have keys1: "fst ` set (bdm st1) = insert (f c) (fst ` set (bdm st))"
        by (simp add: dom_update f_def)
      from s(2) l letters have letters1: "next_letter st1 = cs" by simp
      have ex: "list_ex root_volume (d # ds) = list_ex root_volume ds" using rv by simp
      have len: "length (filter lettered (d # ds)) = Suc (length (filter lettered ds))"
        using l by simp
      show ?thesis
        unfolding r keys1 letters1 len letters ex by auto
    qed
  qed
  then show ?case by (simp only: K_def f_def)
qed

lemma process_devices_keeps_root:
  assumes "process_devices ec2 zone ds st w = (Inr st', w')"
    and "\<not> list_ex root_volume ds"
  shows "map_of (bdm st') ''/dev/sda1'' = map_of (bdm st) ''/dev/sda1''"
  using assms
proof (induction ds arbitrary: st w)
  case Nil
  then show ?case by simp
next
  case (Cons d ds)
  from Cons.prems(1) obtain st1 w1
    where step: "process_device ec2 zone d st w = (Inr st1, w1)"
      and rest: "process_devices ec2 zone ds st1 w1 = (Inr st', w')"
    by (rule process_devices_Cons_ok)
  note s = process_device_ok [OF step]
  from Cons.prems(2) have nd: "\<not> root_volume d" and nds: "\<not> list_ex root_volume ds"
    by simp_all
  from Cons.IH [OF rest nds]
  have later: "map_of (bdm st') ''/dev/sda1'' = map_of (bdm st1) ''/dev/sda1''" .
  have "map_of (bdm st1) ''/dev/sda1'' = map_of (bdm st) ''/dev/sda1''"
  proof (cases "is_volume d")
    case False
    with s(5) show ?thesis by simp
  next
    case True
    with nd have "\<not> is_root d" by (simp add: root_volume_def)
    with s(6) [OF True] show ?thesis
      by (auto simp: update_conv')
  qed
  with later show ?case by simp
qed

lemmas run_defs =
  process_block_device_mappings_def process_device_def device_key_def resolve_source_def
  AWSVolumeService_create_def Let_def initial_loop_state_def device_letters_def
  ascii_lowercase_def
  name_if_def size_truthy_def BlockDeviceType_new_def digit_def empty_world_def
  example_ec2_def

subsection \<open>Compiling block device mappings: concrete runs\<close>

lemma two_roots_result:
  "process_block_device_mappings example_ec2 two_roots_config (PStr ''us-east-1a'') empty_world =
     (Inr [(''/dev/sda1'',
            \<lparr>bdt_snapshot_id = None, bdt_volume_id = Some ''vol-1'',
             bdt_delete_on_terminate = Some True, bdt_size = Some 16,
             bdt_ephemeral_name = None\<rparr>)],
      \<lparr>volume_calls =
         [\<lparr>cv_size = Some 8, cv_zone = PStr ''us-east-1a'', cv_snapshot = PNone\<rparr>,
          \<lparr>cv_size = Some 16, cv_zone = PStr ''us-east-1a'', cv_snapshot = PNone\<rparr>],
       instance_calls = []\<rparr>)"
  by (simp add: run_defs two_roots_config_def root_blank_device_def)

text \<open>
  Claim C1, as stated, fails: a configuration with two root entries is processed to the
  end.  Both entries are stored under \<open>/dev/sda1\<close>, the second replacing the first, and
  a blank volume is created for each of them.
\<close>

theorem two_roots_counterexample:
  "length (filter is_root (block_devices two_roots_config)) = 2 \<and>
   process_block_device_mappings example_ec2 two_roots_config (PStr ''us-east-1a'') empty_world =
     (Inr [(''/dev/sda1'',
            \<lparr>bdt_snapshot_id = None, bdt_volume_id = Some ''vol-1'',
             bdt_delete_on_terminate = Some True, bdt_size = Some 16,
             bdt_ephemeral_name = None\<rparr>)],
      \<lparr>volume_calls =
         [\<lparr>cv_size = Some 8, cv_zone = PStr ''us-east-1a'', cv_snapshot = PNone\<rparr>,
          \<lparr>cv_size = Some 16, cv_zone = PStr ''us-east-1a'', cv_snapshot = PNone\<rparr>],
       instance_calls = []\<rparr>)"
  by (simp add: run_defs two_roots_config_def root_blank_device_def)

text \<open>
  Claim C2 against the code: for two ephemeral entries the loop leaves its state as it
  was.  The mapping stays empty, the ephemeral counter stays 0, and the descriptor
  built for either entry is named \<open>ephemeral0\<close>.
\<close>

theorem ephemeral_devices_dropped:
  "process_devices example_ec2 (PStr ''us-east-1a'') [ephemeral_device, ephemeral_device]
       initial_loop_state empty_world = (Inr initial_loop_state, empty_world) \<and>
   process_block_device_mappings example_ec2
       \<lparr>block_devices = [ephemeral_device, ephemeral_device], net_ids = []\<rparr>
       (PStr ''us-east-1a'') empty_world = (Inr [], empty_world) \<and>
   ephemeral_counter initial_loop_state = 0 \<and>
   bdt_ephemeral_name (ephemeral_bd_type 0) = Some ''ephemeral0''"
  by (simp add: run_defs ephemeral_device_def ephemeral_bd_type_def)

lemma mixed_config_result:
  "process_block_device_mappings example_ec2 mixed_config (PStr ''us-east-1a'') empty_world =
     (Inr [(''/dev/sda1'',
            \<lparr>bdt_snapshot_id = Some ''snap-1'', bdt_volume_id = None,
             bdt_delete_on_terminate = Some True, bdt_size = None,
             bdt_ephemeral_name = None\<rparr>),
           (''sdg'',
            \<lparr>bdt_snapshot_id = None, bdt_volume_id = Some ''vol-0'',
             bdt_delete_on_terminate = Some False, bdt_size = Some 10,
             bdt_ephemeral_name = None\<rparr>),
           (''sdh'',
            \<lparr>bdt_snapshot_id = None, bdt_volume_id = Some ''vol-old'',
             bdt_delete_on_terminate = None, bdt_size = None,
             bdt_ephemeral_name = None\<rparr>)],
      \<lparr>volume_calls =
         [\<lparr>cv_size = Some 10, cv_zone = PStr ''us-east-1a'', cv_snapshot = PNone\<rparr>],
       instance_calls = []\<rparr>)"
  by (simp add: run_defs mixed_config_def root_snapshot_device_def data_blank_device_def
        data_volume_device_def ephemeral_device_def)

lemma many_volumes_result:
  "process_block_device_mappings example_ec2 many_volumes_config (PStr ''us-east-1a'') empty_world =
     (Inl StopIteration, empty_world)"
  by (simp add: run_defs many_volumes_config_def data_volume_device_def numeral_eq_Suc)

text \<open>
  Claim C7 against the code: for a root volume entry, two further volume entries and an
  ephemeral entry, the returned mapping has three items, \<open>/dev/sda1\<close>, \<open>sdg\<close> and \<open>sdh\<close>
  in this order, and none for the ephemeral entry.
\<close>

theorem mixed_sequence_plan:
  "length (block_devices mixed_config) = 4 \<and>
   fst (process_block_device_mappings example_ec2 mixed_config (PStr ''us-east-1a'')
          empty_world) =
     Inr [(''/dev/sda1'',
            \<lparr>bdt_snapshot_id = Some ''snap-1'', bdt_volume_id = None,
             bdt_delete_on_terminate = Some True, bdt_size = None,
             bdt_ephemeral_name = None\<rparr>),
           (''sdg'',
            \<lparr>bdt_snapshot_id = None, bdt_volume_id = Some ''vol-0'',
             bdt_delete_on_terminate = Some False, bdt_size = Some 10,
             bdt_ephemeral_name = None\<rparr>),
           (''sdh'',
            \<lparr>bdt_snapshot_id = None, bdt_volume_id = Some ''vol-old'',
             bdt_delete_on_terminate = None, bdt_size = None,
             bdt_ephemeral_name = None\<rparr>)]"
  using mixed_config_result by (simp add: mixed_config_def)

subsection \<open>Compiling block device mappings: general properties\<close>

text \<open>
  Claim C1, amended.  The number of root entries is never checked.  For every launch
  configuration with at most 20 volume entries that are not root, and an EC2 connection
  on which \<open>create_volume\<close> does not fail, the mapping is returned, and the volume
  requests made are exactly one for each volume entry without a source, root entries
  included, in the order of the entries.  The device names of the mapping are
  \<open>/dev/sda1\<close>, present when some entry is a root volume, and \<open>sd\<close> with one of the
  first letters, as many as there are volume entries that are not root: all root
  volume entries share the one name \<open>/dev/sda1\<close>.  Under that name the mapping holds the
  descriptor built for the last root volume entry.
\<close>

theorem no_root_validation:
  assumes "length (filter lettered (block_devices lc)) \<le> 20"
    and "\<forall>n c. \<exists>v. create_volume ec2 n c = Inr v"
  shows "\<exists>m. process_block_device_mappings ec2 lc zone w =
           (Inr m, w\<lparr>volume_calls := volume_calls w @
                       map (blank_volume_call zone) (filter blank_volume (block_devices lc))\<rparr>) \<and>
         set (map fst m) =
           (if list_ex root_volume (block_devices lc) then {''/dev/sda1''} else {}) \<union>
           (\<lambda>c. ''sd'' @ [c]) `
             set (take (length (filter lettered (block_devices lc))) device_letters) \<and>
         (\<forall>pre d post.
            block_devices lc = pre @ d # post \<and> root_volume d \<and> \<not> list_ex root_volume post \<longrightarrow>
            (\<exists>bd1 w1.
               resolve_source ec2 zone d BlockDeviceType_new
                 (w\<lparr>volume_calls := volume_calls w @
                       map (blank_volume_call zone) (filter blank_volume pre)\<rparr>) = (Inr bd1, w1) \<and>
               map_of m ''/dev/sda1'' = Some (filled_bd_type d bd1)))"
proof -
  have "length (filter lettered (block_devices lc)) \<le> length (next_letter initial_loop_state)"
    using assms(1) by (simp add: initial_loop_state_def device_letters_length)
  moreover have "\<And>n c. \<exists>v. create_volume ec2 n c = Inr v"
    using assms(2) by blast
  ultimately obtain st' w'
    where run: "process_devices ec2 zone (block_devices lc) initial_loop_state w = (Inr st', w')"
    using process_devices_total by blast
  from process_devices_ok [OF run]
  have "w' = w\<lparr>volume_calls := volume_calls w @
                 map (blank_volume_call zone) (filter blank_volume (block_devices lc))\<rparr>"
    by simp
  with run have result: "process_block_device_mappings ec2 lc zone w =
      (Inr (bdm st'), w\<lparr>volume_calls := volume_calls w @
         map (blank_volume_call zone) (filter blank_volume (block_devices lc))\<rparr>)"
    by (simp add: process_block_device_mappings_def)
  have keys: "set (map fst (bdm st')) =
      (if list_ex root_volume (block_devices lc) then {''/dev/sda1''} else {}) \<union>
      (\<lambda>c. ''sd'' @ [c]) `
        set (take (length (filter lettered (block_devices lc))) device_letters)"
    using process_devices_keys [OF run] by (simp add: initial_loop_state_def)
  have roots: "\<exists>bd1 w1.
         resolve_source ec2 zone d BlockDeviceType_new
           (w\<lparr>volume_calls := volume_calls w @
                 map (blank_volume_call zone) (filter blank_volume pre)\<rparr>) = (Inr bd1, w1) \<and>
         map_of (bdm st') ''/dev/sda1'' = Some (filled_bd_type d bd1)"
    if split: "block_devices lc = pre @ d # post" and d: "root_volume d"
      and post: "\<not> list_ex root_volume post" for pre d post
  proof -
    from run split obtain sta wa
      where first: "process_devices ec2 zone pre initial_loop_state w = (Inr sta, wa)"
        and rest: "process_devices ec2 zone (d # post) sta wa = (Inr st', w')"
      by (auto simp: process_devices_append split: prod.splits sum.splits)
    from rest obtain stb wb
      where step: "process_device ec2 zone d sta wa = (Inr stb, wb)"
        and last: "process_devices ec2 zone post stb wb = (Inr st', w')"
      by (rule process_devices_Cons_ok)
    have wa: "wa = w\<lparr>volume_calls := volume_calls w @
        map (blank_volume_call zone) (filter blank_volume pre)\<rparr>"
      using process_devices_ok [OF first] by simp
    from d have vol: "is_volume d" and root: "is_root d"
      by (simp_all add: root_volume_def)
    from process_device_ok(6) [OF step vol] root obtain bd1 w1
      where res: "resolve_source ec2 zone d BlockDeviceType_new wa = (Inr bd1, w1)"
        and upd: "bdm stb = AList.update ''/dev/sda1'' (filled_bd_type d bd1) (bdm sta)"
      by auto
    from upd have "map_of (bdm stb) ''/dev/sda1'' = Some (filled_bd_type d bd1)"
      by (simp add: update_conv')
    with process_devices_keeps_root [OF last post]
    have "map_of (bdm st') ''/dev/sda1'' = Some (filled_bd_type d bd1)" by simp
    with res wa show ?thesis by blast
  qed
  show ?thesis
  proof (intro exI [of _ "bdm st'"] conjI allI impI)
    show "process_block_device_mappings ec2 lc zone w =
      (Inr (bdm st'), w\<lparr>volume_calls := volume_calls w @
         map (blank_volume_call zone) (filter blank_volume (block_devices lc))\<rparr>)"
      by (rule result)
    show "set (map fst (bdm st')) =
      (if list_ex root_volume (block_devices lc) then {''/dev/sda1''} else {}) \<union>
      (\<lambda>c. ''sd'' @ [c]) `
        set (take (length (filter lettered (block_devices lc))) device_letters)"
      by (rule keys)
  next
    fix pre d post
    assume a: "block_devices lc = pre @ d # post \<and> root_volume d \<and> \<not> list_ex root_volume post"
    from a have a1: "block_devices lc = pre @ d # post" by (rule conjunct1)
    from a have a2: "root_volume d" by simp
    from a have a3: "\<not> list_ex root_volume post" by simp
    show "\<exists>bd1 w1. resolve_source ec2 zone d BlockDeviceType_new
           (w\<lparr>volume_calls := volume_calls w @
                 map (blank_volume_call zone) (filter blank_volume pre)\<rparr>) = (Inr bd1, w1) \<and>
         map_of (bdm st') ''/dev/sda1'' = Some (filled_bd_type d bd1)"
      by (rule roots [OF a1 a2 a3])
  qed
qed

theorem no_root_validation_witness:
  "volume_calls (snd (process_block_device_mappings example_ec2 two_roots_config
       (PStr ''us-east-1a'') empty_world)) =
     [\<lparr>cv_size = Some 8, cv_zone = PStr ''us-east-1a'', cv_snapshot = PNone\<rparr>,
      \<lparr>cv_size = Some 16, cv_zone = PStr ''us-east-1a'', cv_snapshot = PNone\<rparr>] \<and>
   set (map fst (projr (fst (process_block_device_mappings example_ec2 two_roots_config
       (PStr ''us-east-1a'') empty_world)))) = {''/dev/sda1''} \<and>
   map_option bdt_size
     (map_of (projr (fst (process_block_device_mappings example_ec2 two_roots_config
        (PStr ''us-east-1a'') empty_world))) ''/dev/sda1'') = Some (Some 16)"
proof -
  let ?last = "root_blank_device\<lparr>device_size := Some 16\<rparr>"
  have small: "length (filter lettered (block_devices two_roots_config)) \<le> 20"
    by (simp add: two_roots_config_def root_blank_device_def lettered_def)
  have ok: "\<forall>n c. \<exists>v. create_volume example_ec2 n c = Inr v"
    by (simp add: example_ec2_def)
  from no_root_validation [OF small ok, of "PStr ''us-east-1a''" empty_world] obtain m
    where run: "process_block_device_mappings example_ec2 two_roots_config
          (PStr ''us-east-1a'') empty_world =
        (Inr m, empty_world\<lparr>volume_calls := volume_calls empty_world @
           map (blank_volume_call (PStr ''us-east-1a''))
             (filter blank_volume (block_devices two_roots_config))\<rparr>)"
      and keys: "set (map fst m) =
        (if list_ex root_volume (block_devices two_roots_config) then {''/dev/sda1''} else {}) \<union>
        (\<lambda>c. ''sd'' @ [c]) `
          set (take (length (filter lettered (block_devices two_roots_config))) device_letters)"
      and roots: "\<forall>pre d post.
        block_devices two_roots_config = pre @ d # post \<and> root_volume d \<and>
          \<not> list_ex root_volume post \<longrightarrow>
        (\<exists>bd1 w1.
           resolve_source example_ec2 (PStr ''us-east-1a'') d BlockDeviceType_new
             (empty_world\<lparr>volume_calls := volume_calls empty_world @
                map (blank_volume_call (PStr ''us-east-1a'')) (filter blank_volume pre)\<rparr>) =
             (Inr bd1, w1) \<and>
           map_of m ''/dev/sda1'' = Some (filled_bd_type d bd1))"
    by (elim exE conjE)
  have split: "block_devices two_roots_config = [root_blank_device] @ ?last # [] \<and>
      root_volume ?last \<and> \<not> list_ex root_volume []"
    by (simp add: two_roots_config_def root_blank_device_def root_volume_def)
  from roots [rule_format, of "[root_blank_device]" ?last "[]", OF split] obtain bd1
    where slot: "map_of m ''/dev/sda1'' = Some (filled_bd_type ?last bd1)"
    by (elim exE conjE)
  have "bdt_size (filled_bd_type ?last bd1) = Some 16"
    by (simp add: filled_bd_type_def Let_def size_truthy_def root_blank_device_def)
  with slot have third: "map_option bdt_size (map_of m ''/dev/sda1'') = Some (Some 16)"
    by simp
  have "list_ex root_volume (block_devices two_roots_config)"
    by (simp add: two_roots_config_def root_blank_device_def root_volume_def)
  moreover have "length (filter lettered (block_devices two_roots_config)) = 0"
    by (simp add: two_roots_config_def root_blank_device_def lettered_def)
  ultimately have second: "set (map fst m) = {''/dev/sda1''}"
    using keys by simp
  have first: "volume_calls (snd (process_block_device_mappings example_ec2 two_roots_config
       (PStr ''us-east-1a'') empty_world)) =
     [\<lparr>cv_size = Some 8, cv_zone = PStr ''us-east-1a'', cv_snapshot = PNone\<rparr>,
      \<lparr>cv_size = Some 16, cv_zone = PStr ''us-east-1a'', cv_snapshot = PNone\<rparr>]"
    by (simp add: two_roots_result)
  from run have "projr (fst (process_block_device_mappings example_ec2 two_roots_config
       (PStr ''us-east-1a'') empty_world)) = m"
    by simp
  with first second third show ?thesis by simp
qed

lemma nth_not_in_later: "distinct xs \<Longrightarrow> j < length xs \<Longrightarrow> xs ! j \<notin> set (drop (Suc j) xs)"
proof -
  assume d: "distinct xs" and j: "j < length xs"
  from j have "xs = take j xs @ xs ! j # drop (Suc j) xs"
    by (rule id_take_nth_drop)
  with d have "distinct (take j xs @ xs ! j # drop (Suc j) xs)" by simp
  then show ?thesis by simp
qed

text \<open>
  Claim C5, amended.  Let a configuration contain a volume entry \<open>d\<close> that is not root
  and has no source, and let a mapping be returned for it.  Then the volume requests
  that were added are those of the entries before \<open>d\<close>, one request with the size of
  \<open>d\<close> and the zone, and those of the entries after \<open>d\<close>; that one request was answered
  with a volume identifier, and the descriptor stored under the letter assigned to \<open>d\<close>
  carries this identifier.
\<close>

theorem blank_volume_provisioned_once:
  assumes devs: "block_devices lc = pre @ d # post"
    and d: "is_volume d" "\<not> is_root d" "source d = SrcNone"
    and run: "process_block_device_mappings ec2 lc zone w = (Inr m, w')"
  shows "\<exists>vid bd.
           volume_calls w' =
             volume_calls w @ map (blank_volume_call zone) (filter blank_volume pre) @
               [\<lparr>cv_size = device_size d, cv_zone = name_if PlacementZone zone,
                 cv_snapshot = PNone\<rparr>] @
               map (blank_volume_call zone) (filter blank_volume post) \<and>
           create_volume ec2 (length (volume_calls w) + length (filter blank_volume pre))
             \<lparr>cv_size = device_size d, cv_zone = name_if PlacementZone zone,
              cv_snapshot = PNone\<rparr> = Inr vid \<and>
           map_of m (''sd'' @ [device_letters ! length (filter lettered pre)]) = Some bd \<and>
           bdt_volume_id bd = Some vid"
proof -
  let ?L = "device_letters"
  let ?j = "length (filter lettered pre)"
  let ?key = "''sd'' @ [?L ! ?j]"
  have blank: "blank_volume d" and lett: "lettered d"
    using d by (simp_all add: blank_volume_def lettered_def)
  from run devs obtain st3
    where whole: "process_devices ec2 zone (pre @ d # post) initial_loop_state w = (Inr st3, w')"
      and m: "m = bdm st3"
    by (auto simp: process_block_device_mappings_def split: prod.splits sum.splits)
  from whole obtain st1 w1
    where first: "process_devices ec2 zone pre initial_loop_state w = (Inr st1, w1)"
      and rest: "process_devices ec2 zone (d # post) st1 w1 = (Inr st3, w')"
    by (auto simp: process_devices_append split: prod.splits sum.splits)
  from rest obtain st2 w2
    where step: "process_device ec2 zone d st1 w1 = (Inr st2, w2)"
      and last: "process_devices ec2 zone post st2 w2 = (Inr st3, w')"
    by (rule process_devices_Cons_ok)
  have letters1: "next_letter st1 = drop ?j ?L"
    and calls1: "volume_calls w1 =
      volume_calls w @ map (blank_volume_call zone) (filter blank_volume pre)"
    using process_devices_ok [OF first] by (simp_all add: initial_loop_state_def)
  note s = process_device_ok [OF step]
  from s(3) [OF lett] letters1 have j: "?j < length ?L" by simp
  then have hd1: "hd (next_letter st1) = ?L ! ?j"
    using letters1 by (simp add: hd_drop_conv_nth)
  from s(6) [OF d(1)] d(2) hd1 obtain bd1 w1'
    where res: "resolve_source ec2 zone d BlockDeviceType_new w1 = (Inr bd1, w1')"
      and upd: "bdm st2 = AList.update ?key (filled_bd_type d bd1) (bdm st1)"
    by auto
  from resolve_source_ok(2) [OF res d(3)] obtain vid
    where vid: "create_volume ec2 (length (volume_calls w1)) (blank_volume_call zone d) = Inr vid"
      and bd1: "bd1 = BlockDeviceType_new\<lparr>bdt_volume_id := Some vid\<rparr>"
    by blast
  have stored: "map_of (bdm st2) ?key = Some (filled_bd_type d bd1)"
    using upd by (simp add: update_conv')
  have carried: "bdt_volume_id (filled_bd_type d bd1) = Some vid"
    using bd1 by (simp add: filled_bd_type_def Let_def)
  have letters2: "next_letter st2 = drop (Suc ?j) ?L"
    using s(2) lett letters1 by (simp add: drop_Suc tl_drop)
  have "?L ! ?j \<notin> set (drop (Suc ?j) ?L)"
    using device_letters_distinct j by (rule nth_not_in_later)
  with letters2 have fresh: "\<forall>c\<in>set (next_letter st2). ?key \<noteq> ''sd'' @ [c]"
    by auto
  have "?key \<noteq> ''/dev/sda1''" by simp
  from process_devices_keeps [OF last this fresh] stored m
  have final: "map_of m ?key = Some (filled_bd_type d bd1)" by simp
  have calls: "volume_calls w' =
      volume_calls w @ map (blank_volume_call zone) (filter blank_volume (pre @ d # post))"
    using process_devices_ok [OF whole] by simp
  have "volume_calls w' =
      volume_calls w @ map (blank_volume_call zone) (filter blank_volume pre) @
        [\<lparr>cv_size = device_size d, cv_zone = name_if PlacementZone zone, cv_snapshot = PNone\<rparr>] @
        map (blank_volume_call zone) (filter blank_volume post)"
    using calls blank by (simp add: blank_volume_call_def)
  moreover have "create_volume ec2 (length (volume_calls w) + length (filter blank_volume pre))
      \<lparr>cv_size = device_size d, cv_zone = name_if PlacementZone zone, cv_snapshot = PNone\<rparr> =
      Inr vid"
    using vid calls1 by (simp add: blank_volume_call_def)
  ultimately show ?thesis
    using final carried by blast
qed

theorem blank_volume_provisioned_once_witness:
  "create_volume example_ec2 0
     \<lparr>cv_size = Some 10, cv_zone = PStr ''us-east-1a'', cv_snapshot = PNone\<rparr> = Inr ''vol-0'' \<and>
   map_option bdt_volume_id
     (map_of (projr (fst (process_block_device_mappings example_ec2 mixed_config
                (PStr ''us-east-1a'') empty_world))) ''sdg'') = Some (Some ''vol-0'')"
proof -
  have devs: "block_devices mixed_config =
      [root_snapshot_device] @ data_blank_device # [data_volume_device, ephemeral_device]"
    by (simp add: mixed_config_def)
  have d: "is_volume data_blank_device" "\<not> is_root data_blank_device"
    "source data_blank_device = SrcNone"
    by (simp_all add: data_blank_device_def)
  from blank_volume_provisioned_once [OF devs d mixed_config_result] obtain vid bd
    where made: "create_volume example_ec2
        (length (volume_calls empty_world) + length (filter blank_volume [root_snapshot_device]))
        \<lparr>cv_size = device_size data_blank_device,
         cv_zone = name_if PlacementZone (PStr ''us-east-1a''), cv_snapshot = PNone\<rparr> = Inr vid"
      and stored: "map_of [(''/dev/sda1'',
            \<lparr>bdt_snapshot_id = Some ''snap-1'', bdt_volume_id = None,
             bdt_delete_on_terminate = Some True, bdt_size = None,
             bdt_ephemeral_name = None\<rparr>),
           (''sdg'',
            \<lparr>bdt_snapshot_id = None, bdt_volume_id = Some ''vol-0'',
             bdt_delete_on_terminate = Some False, bdt_size = Some 10,
             bdt_ephemeral_name = None\<rparr>),
           (''sdh'',
            \<lparr>bdt_snapshot_id = None, bdt_volume_id = Some ''vol-old'',
             bdt_delete_on_terminate = None, bdt_size = None,
             bdt_ephemeral_name = None\<rparr>)]
          (''sd'' @ [device_letters ! length (filter lettered [root_snapshot_device])]) = Some bd"
      and carried: "bdt_volume_id bd = Some vid"
    by blast
  have first: "create_volume example_ec2 0
     \<lparr>cv_size = Some 10, cv_zone = PStr ''us-east-1a'', cv_snapshot = PNone\<rparr> = Inr ''vol-0''"
    by (simp add: example_ec2_def digit_def)
  have "length (filter lettered [root_snapshot_device]) = 0"
    by (simp add: lettered_def root_snapshot_device_def)
  with stored have "bdt_volume_id bd = Some ''vol-0''"
    by (auto simp: device_letters_eq)
  with carried have "vid = ''vol-0''" by simp
  with stored carried
    \<open>length (filter lettered [root_snapshot_device]) = 0\<close> first
  show ?thesis
    by (simp add: mixed_config_result device_letters_eq)
qed

lemma late_blank_result:
  "process_block_device_mappings example_ec2 late_blank_config (PStr ''us-east-1a'') empty_world =
     (Inl StopIteration, empty_world)"
  by (simp add: run_defs late_blank_config_def data_volume_device_def data_blank_device_def
        numeral_eq_Suc)

text \<open>
  Claim C5, as stated, fails: when 20 volume entries that are not root come before the
  entry without a source, the letters have run out when that entry is reached.  The
  loop raises \<open>StopIteration\<close> and no volume has been requested.
\<close>

theorem late_blank_counterexample:
  "block_devices late_blank_config = replicate 20 data_volume_device @ [data_blank_device] \<and>
   is_volume data_blank_device \<and> \<not> is_root data_blank_device \<and>
   source data_blank_device = SrcNone \<and>
   process_block_device_mappings example_ec2 late_blank_config (PStr ''us-east-1a'') empty_world =
     (Inl StopIteration, \<lparr>volume_calls = [], instance_calls = []\<rparr>)"
  using late_blank_result
  by (simp add: late_blank_config_def data_blank_device_def empty_world_def)

lemma process_block_device_mappings_calls:
  "process_block_device_mappings ec2 lc zone w = (r, w1) \<Longrightarrow> instance_calls w1 = instance_calls w"
  using process_block_device_mappings_instance_calls [of ec2 lc zone w] by simp

subsection \<open>Launch: the number of \<open>run_instances\<close> calls\<close>

text \<open>
  Claim C6, amended.  Without a launch configuration, \<open>create\<close> makes exactly one
  \<open>run_instances\<close> call, with no block device mapping and no subnet.  With a launch
  configuration for which the mapping is returned, it makes exactly one call, carrying
  that mapping and the first network identifier.  With a launch configuration for which
  building the mapping raises, it makes no call and raises the same error.
\<close>

theorem one_instance_call:
  "(lc = None \<longrightarrow>
      (\<exists>call. instance_calls (snd (AWSInstanceService_create ec2 name img instance_type zone
                  keypair security_groups user_data lc w)) = instance_calls w @ [call] \<and>
              ri_block_device_map call = None \<and> ri_subnet_id call = None)) \<and>
   (\<forall>c m w1. lc = Some c \<and>
      process_block_device_mappings ec2 c (name_if PlacementZone zone) w = (Inr m, w1) \<longrightarrow>
      (\<exists>call. instance_calls (snd (AWSInstanceService_create ec2 name img instance_type zone
                  keypair security_groups user_data lc w)) = instance_calls w @ [call] \<and>
              ri_block_device_map call = Some m \<and> ri_subnet_id call = get_net_id c)) \<and>
   (\<forall>c e w1. lc = Some c \<and>
      process_block_device_mappings ec2 c (name_if PlacementZone zone) w = (Inl e, w1) \<longrightarrow>
      instance_calls (snd (AWSInstanceService_create ec2 name img instance_type zone
          keypair security_groups user_data lc w)) = instance_calls w \<and>
      fst (AWSInstanceService_create ec2 name img instance_type zone
          keypair security_groups user_data lc w) = Inl e)"
proof (intro conjI allI impI)
  assume "lc = None"
  then show "\<exists>call. instance_calls (snd (AWSInstanceService_create ec2 name img instance_type
        zone keypair security_groups user_data lc w)) = instance_calls w @ [call] \<and>
      ri_block_device_map call = None \<and> ri_subnet_id call = None"
    by (simp add: AWSInstanceService_create_def Let_def split: sum.splits)
next
  fix c m w1
  assume a: "lc = Some c \<and>
      process_block_device_mappings ec2 c (name_if PlacementZone zone) w = (Inr m, w1)"
  then have "instance_calls w1 = instance_calls w"
    using process_block_device_mappings_calls by blast
  with a show "\<exists>call. instance_calls (snd (AWSInstanceService_create ec2 name img instance_type
        zone keypair security_groups user_data lc w)) = instance_calls w @ [call] \<and>
      ri_block_device_map call = Some m \<and> ri_subnet_id call = get_net_id c"
    by (simp add: AWSInstanceService_create_def Let_def split: sum.splits)
next
  fix c e w1
  assume a: "lc = Some c \<and>
      process_block_device_mappings ec2 c (name_if PlacementZone zone) w = (Inl e, w1)"
  then have "instance_calls w1 = instance_calls w"
    using process_block_device_mappings_calls by blast
  with a show "instance_calls (snd (AWSInstanceService_create ec2 name img instance_type zone
          keypair security_groups user_data lc w)) = instance_calls w"
    by (simp add: AWSInstanceService_create_def Let_def)
  from a show "fst (AWSInstanceService_create ec2 name img instance_type zone
          keypair security_groups user_data lc w) = Inl e"
    by (simp add: AWSInstanceService_create_def Let_def)
qed

theorem one_instance_call_witness:
  "length (instance_calls (snd (AWSInstanceService_create example_ec2 ''web'' (PStr ''ami-1'')
      (PStr ''t2.micro'') (PStr ''us-east-1a'') PNone SGNone PNone None empty_world))) = 1 \<and>
   length (instance_calls (snd (AWSInstanceService_create example_ec2 ''web'' (PStr ''ami-1'')
      (PStr ''t2.micro'') (PStr ''us-east-1a'') PNone SGNone PNone (Some mixed_config)
      empty_world))) = 1 \<and>
   instance_calls (snd (AWSInstanceService_create example_ec2 ''web'' (PStr ''ami-1'')
      (PStr ''t2.micro'') (PStr ''us-east-1a'') PNone SGNone PNone (Some many_volumes_config)
      empty_world)) = []"
  using
    one_instance_call [of None example_ec2 "''web''" "PStr ''ami-1''" "PStr ''t2.micro''"
      "PStr ''us-east-1a''" PNone SGNone PNone empty_world]
    one_instance_call [of "Some mixed_config" example_ec2 "''web''" "PStr ''ami-1''"
      "PStr ''t2.micro''" "PStr ''us-east-1a''" PNone SGNone PNone empty_world]
    one_instance_call [of "Some many_volumes_config" example_ec2 "''web''" "PStr ''ami-1''"
      "PStr ''t2.micro''" "PStr ''us-east-1a''" PNone SGNone PNone empty_world]
    mixed_config_result many_volumes_result
  by (auto simp: name_if_def empty_world_def)

text \<open>
  Claim C6, as stated, fails: with 21 volume entries that are not root the letters run
  out, \<open>create\<close> raises \<open>StopIteration\<close> and \<open>run_instances\<close> is never called.
\<close>

theorem many_volumes_counterexample:
  "length (block_devices many_volumes_config) = 21 \<and>
   AWSInstanceService_create example_ec2 ''web'' (PStr ''ami-1'') (PStr ''t2.micro'')
       (PStr ''us-east-1a'') PNone SGNone PNone (Some many_volumes_config) empty_world =
     (Inl StopIteration, \<lparr>volume_calls = [], instance_calls = []\<rparr>)"
  using many_volumes_result
  by (simp add: AWSInstanceService_create_def name_if_def many_volumes_config_def
        empty_world_def)

end
